theory Spec2Isabelle
  imports Main
begin

section \<open>Python string operations used by the handlers\<close>

text \<open>
  A Python \<open>str\<close> is modelled as a \<open>string\<close> whose characters are read as ASCII code
  points. The case mappings below change the 26 ASCII letters and leave every other
  character alone; the whitespace set is the ASCII part of what \<open>str.strip()\<close> removes.
  Text outside ASCII is outside this model.
\<close>

definition ascii_uppercase :: string where
  "ascii_uppercase = ''ABCDEFGHIJKLMNOPQRSTUVWXYZ''"

definition ascii_lowercase :: string where
  "ascii_lowercase = ''abcdefghijklmnopqrstuvwxyz''"

definition lower_char :: "char \<Rightarrow> char" where
  "lower_char c =
     (case map_of (zip ascii_uppercase ascii_lowercase) c of Some d \<Rightarrow> d | None \<Rightarrow> c)"

definition upper_char :: "char \<Rightarrow> char" where
  "upper_char c =
     (case map_of (zip ascii_lowercase ascii_uppercase) c of Some d \<Rightarrow> d | None \<Rightarrow> c)"

definition str_lower :: "string \<Rightarrow> string" where
  \<comment> \<open>\<open>s.lower()\<close>\<close>
  "str_lower s = map lower_char s"

definition str_upper :: "string \<Rightarrow> string" where
  \<comment> \<open>\<open>s.upper()\<close>\<close>
  "str_upper s = map upper_char s"

definition is_space :: "char \<Rightarrow> bool" where
  \<comment> \<open>tab, line feed, vertical tab, form feed, carriage return, the four separators
      0x1C..0x1F and the space\<close>
  "is_space c \<longleftrightarrow>
     c \<in> set [CHR 0x09, CHR 0x0A, CHR 0x0B, CHR 0x0C, CHR 0x0D,
               CHR 0x1C, CHR 0x1D, CHR 0x1E, CHR 0x1F, CHR 0x20]"

definition str_strip :: "string \<Rightarrow> string" where
  \<comment> \<open>\<open>s.strip()\<close>: whitespace removed at both ends\<close>
  "str_strip s = rev (dropWhile is_space (rev (dropWhile is_space s)))"

definition str_replace :: "char \<Rightarrow> char \<Rightarrow> string \<Rightarrow> string" where
  \<comment> \<open>\<open>s.replace(old, new)\<close> for one-character \<open>old\<close> and \<open>new\<close>\<close>
  "str_replace old new s = map (\<lambda>c. if c = old then new else c) s"

fun str_split :: "char \<Rightarrow> string \<Rightarrow> string list" where
  \<comment> \<open>\<open>s.split(sep)\<close> for a one-character separator: empty fragments are kept,
      and the empty string gives one empty fragment\<close>
  "str_split sep [] = [[]]"
| "str_split sep (c # cs) =
     (if c = sep then [] # str_split sep cs
      else (case str_split sep cs of
              [] \<Rightarrow> [[c]]
            | w # ws \<Rightarrow> (c # w) # ws))"

fun str_join :: "string \<Rightarrow> string list \<Rightarrow> string" where
  \<comment> \<open>\<open>sep.join(xs)\<close>\<close>
  "str_join sep [] = []"
| "str_join sep [x] = x"
| "str_join sep (x # y # ys) = x @ sep @ str_join sep (y # ys)"

fun starts_with :: "string \<Rightarrow> string \<Rightarrow> bool" where
  \<comment> \<open>\<open>s.startswith(k)\<close>, with the arguments in the order of \<open>k in s\<close>\<close>
  "starts_with [] s = True"
| "starts_with (k # ks) [] = False"
| "starts_with (k # ks) (c # cs) = (k = c \<and> starts_with ks cs)"

fun str_contains :: "string \<Rightarrow> string \<Rightarrow> bool" where
  \<comment> \<open>\<open>k in s\<close>: \<open>k\<close> occurs in \<open>s\<close> as a contiguous substring\<close>
  "str_contains k [] = (k = [])"
| "str_contains k (c # cs) = (starts_with k (c # cs) \<or> str_contains k cs)"

definition str_endswith :: "string \<Rightarrow> string \<Rightarrow> bool" where
  \<comment> \<open>\<open>s.endswith(suf)\<close>, with the suffix first\<close>
  "str_endswith suf s = starts_with (rev suf) (rev s)"

definition apostrophe :: string where
  "apostrophe = [CHR 0x27]"


section \<open>NeoTutor\<close>

record AskRequest =
  question :: string
  level :: "string option"

record AskResponse =
  answer :: string
  steps :: "string list"
  tips :: "string list"

definition neotutor_ask :: "AskRequest \<Rightarrow> AskResponse" where
  "neotutor_ask payload =
     (let q = str_strip (question payload);
          tips = [''Baca soal perlahan dan tandai kata kunci.'',
                  ''Ubah pertanyaan menjadi kalimat pernyataan untuk membantu memahami.'',
                  ''Coba jelaskan kembali dengan bahasamu sendiri.''];
          (steps, answer) =
            (if list_ex (\<lambda>k. str_contains k (str_lower q))
                  [''rumus'', ''formula'', ''luas'', ''keliling'']
             then ([''Identifikasi besaran yang diketahui'',
                    ''Tulis rumus yang sesuai'',
                    ''Substitusi nilai, hitung tahap demi tahap'',
                    ''Tulis jawaban dengan satuan yang benar''],
                   ''Untuk soal berhitung, gunakan rumus yang tepat lalu hitung tahap demi tahap.'')
             else if str_endswith ''?'' q
             then ([''Pahami pertanyaan'', ''Cari konsep utama'',
                    ''Berikan contoh sederhana'', ''Simpulkan''],
                   ''Berikut penjelasan singkat dengan bahasa sederhana sesuai pertanyaanmu.'')
             else ([''Pecah persoalan'', ''Cari definisi'',
                    ''Hubungkan dengan contoh'', ''Simpulkan''],
                   ''Ini adalah jawaban ringkas yang mudah diikuti.''));
          topic = take 80 q;
          answer = ''Menjawab: '' @ apostrophe @ topic @ apostrophe @ ''. '' @ answer
      in \<lparr>answer = answer, steps = steps, tips = tips\<rparr>)"


section \<open>Flexa (format converter)\<close>

record FlexaRequest =
  text' :: string

record FlexaResponse =
  audio_url :: "string option"
  large_text :: string
  summary :: string
  sign_gloss :: "string list"

definition flexa_convert :: "FlexaRequest \<Rightarrow> FlexaResponse" where
  "flexa_convert payload =
     (let text = str_strip (FlexaRequest.text' payload);
          large_text = text;
          sentences =
            [str_strip s.
               s \<leftarrow> str_split (CHR ''.'')
                     (str_replace (CHR ''?'') (CHR ''.'')
                        (str_replace (CHR ''!'') (CHR ''.'') text)),
               str_strip s \<noteq> []];
          summary = str_join ''. '' (take 2 sentences);
          summary = (if length sentences > 2 then summary @ ''...'' else summary);
          words = [w. w \<leftarrow> str_split (CHR '' '') (str_replace (CHR 0x0A) (CHR '' '') text),
                      w \<noteq> []];
          gloss = [str_upper w. w \<leftarrow> take 8 words]
      in \<lparr>FlexaResponse.audio_url = None, large_text = large_text,
          FlexaResponse.summary = summary, sign_gloss = gloss\<rparr>)"


section \<open>EyeRead\<close>

record EyeReadRequest =
  text' :: string

record EyeReadResponse =
  text' :: string
  summary :: string
  audio_url :: "string option"

definition eyeread_scan :: "EyeReadRequest \<Rightarrow> EyeReadResponse" where
  "eyeread_scan payload =
     (let text = str_strip (EyeReadRequest.text' payload);
          sentences =
            [str_strip s.
               s \<leftarrow> str_split (CHR ''.'')
                     (str_replace (CHR ''?'') (CHR ''.'')
                        (str_replace (CHR ''!'') (CHR ''.'') text)),
               str_strip s \<noteq> []];
          summary = str_join ''. '' (take 2 sentences);
          summary = (if length sentences > 2 then summary @ ''...'' else summary)
      in \<lparr>EyeReadResponse.text' = text, EyeReadResponse.summary = summary,
          EyeReadResponse.audio_url = None\<rparr>)"


section \<open>Pathly (adaptive path)\<close>

record PathlyRequest =
  topic :: string
  proficiency :: int

record PathItem =
  title :: string
  objective :: string
  activity :: string

record PathlyResponse =
  level :: string
  plan :: "PathItem list"
  recommended :: "string list"

definition pathly_plan :: "PathlyRequest \<Rightarrow> PathlyResponse" where
  "pathly_plan payload =
     (let topic = str_strip (PathlyRequest.topic payload);
          p = proficiency payload
      in if p \<le> 2 then
           \<lparr>PathlyResponse.level = ''dasar'',
            plan = [\<lparr>title = ''Pengenalan '' @ topic, objective = ''Memahami konsep inti'',
                     activity = ''Baca ringkasan + 3 contoh''\<rparr>,
                    \<lparr>title = ''Latihan ringan'', objective = ''Menguatkan pemahaman'',
                     activity = ''Kerjakan 5 soal pilihan ganda''\<rparr>],
            recommended = [''Video pengantar 5 menit'', ''Kartu ringkas istilah'']\<rparr>
         else if p = 3 then
           \<lparr>PathlyResponse.level = ''menengah'',
            plan = [\<lparr>title = ''Pendalaman '' @ topic, objective = ''Menghubungkan konsep'',
                     activity = ''Buat peta konsep sederhana''\<rparr>,
                    \<lparr>title = ''Latihan terarah'', objective = ''Terapan dasar'',
                     activity = ''Kerjakan 5 soal cerita''\<rparr>],
            recommended = [''Artikel ringkas'', ''Latihan interaktif'']\<rparr>
         else
           \<lparr>PathlyResponse.level = ''lanjutan'',
            plan = [\<lparr>title = ''Aplikasi '' @ topic, objective = ''Pemecahan masalah'',
                     activity = ''Proyek mini 1 halaman''\<rparr>,
                    \<lparr>title = ''Refleksi'', objective = ''Menjelaskan ke orang lain'',
                     activity = ''Tulis ringkasan 150 kata''\<rparr>],
            recommended = [''Bank soal tingkat lanjut'', ''Topik terkait untuk eksplorasi'']\<rparr>)"


section \<open>The specification's own vocabulary\<close>







section \<open>Facts about the string operations\<close>




























































section \<open>Pathway planner\<close>

text \<open>
  C2. For every topic and every proficiency from 1 to 5, the plan's level is "dasar" for 1
  and 2, "menengah" for 3 and "lanjutan" for 4 and 5, and in every case the plan has
  exactly two items and there are exactly two recommendations.
\<close>

theorem pathly_plan_tiers_in_contract:
  assumes "1 \<le> p" and "p \<le> 5"
  shows "(p = 1 \<or> p = 2 \<longrightarrow>
            PathlyResponse.level (pathly_plan \<lparr>topic = t, proficiency = p\<rparr>) = ''dasar'')
       \<and> (p = 3 \<longrightarrow>
            PathlyResponse.level (pathly_plan \<lparr>topic = t, proficiency = p\<rparr>) = ''menengah'')
       \<and> (p = 4 \<or> p = 5 \<longrightarrow>
            PathlyResponse.level (pathly_plan \<lparr>topic = t, proficiency = p\<rparr>) = ''lanjutan'')
       \<and> length (plan (pathly_plan \<lparr>topic = t, proficiency = p\<rparr>)) = 2
       \<and> length (recommended (pathly_plan \<lparr>topic = t, proficiency = p\<rparr>)) = 2"
  using assms by (auto simp: pathly_plan_def Let_def)

theorem pathly_plan_tiers_in_contract_witness:
  "PathlyResponse.level (pathly_plan \<lparr>topic = ''Pecahan'', proficiency = 1\<rparr>) = ''dasar''
   \<and> PathlyResponse.level (pathly_plan \<lparr>topic = ''Pecahan'', proficiency = 3\<rparr>) = ''menengah''
   \<and> PathlyResponse.level (pathly_plan \<lparr>topic = ''Pecahan'', proficiency = 5\<rparr>) = ''lanjutan''
   \<and> length (plan (pathly_plan \<lparr>topic = ''Pecahan'', proficiency = 5\<rparr>)) = 2
   \<and> length (recommended (pathly_plan \<lparr>topic = ''Pecahan'', proficiency = 5\<rparr>)) = 2"
  using pathly_plan_tiers_in_contract [of 1 "''Pecahan''"]
        pathly_plan_tiers_in_contract [of 3 "''Pecahan''"]
        pathly_plan_tiers_in_contract [of 5 "''Pecahan''"]
  by simp

text \<open>
  C10. The tier selection is total over all integers: every proficiency, also one outside
  1..5, gives a plan; the level is "dasar" up to 2, "menengah" at 3 and "lanjutan" from 4
  on, always with two plan items and two recommendations. The handler's body has no
  failing branch, so the model is a total function with no error value.
\<close>

theorem pathly_plan_total:
  "(p \<le> 2 \<longrightarrow>
      PathlyResponse.level (pathly_plan \<lparr>topic = t, proficiency = p\<rparr>) = ''dasar'')
   \<and> (p = 3 \<longrightarrow>
      PathlyResponse.level (pathly_plan \<lparr>topic = t, proficiency = p\<rparr>) = ''menengah'')
   \<and> (4 \<le> p \<longrightarrow>
      PathlyResponse.level (pathly_plan \<lparr>topic = t, proficiency = p\<rparr>) = ''lanjutan'')
   \<and> length (plan (pathly_plan \<lparr>topic = t, proficiency = p\<rparr>)) = 2
   \<and> length (recommended (pathly_plan \<lparr>topic = t, proficiency = p\<rparr>)) = 2"
  by (simp add: pathly_plan_def Let_def)

theorem pathly_plan_total_witness:
  "PathlyResponse.level (pathly_plan \<lparr>topic = ''Pecahan'', proficiency = 0\<rparr>) = ''dasar''
   \<and> PathlyResponse.level (pathly_plan \<lparr>topic = ''Pecahan'', proficiency = 3\<rparr>) = ''menengah''
   \<and> PathlyResponse.level (pathly_plan \<lparr>topic = ''Pecahan'', proficiency = 6\<rparr>) = ''lanjutan''
   \<and> length (plan (pathly_plan \<lparr>topic = ''Pecahan'', proficiency = 6\<rparr>)) = 2
   \<and> length (recommended (pathly_plan \<lparr>topic = ''Pecahan'', proficiency = 0\<rparr>)) = 2"
  using pathly_plan_total [of 0 "''Pecahan''"]
        pathly_plan_total [of 3 "''Pecahan''"]
        pathly_plan_total [of 6 "''Pecahan''"]
  by simp


section \<open>Tutoring rule engine\<close>


text \<open>
  C8. The level has no effect: for every question and any two levels, the two responses
  agree in the answer, the steps and the tips.
\<close>

theorem neotutor_ask_level_inert:
  "neotutor_ask \<lparr>question = q, level = l1\<rparr> = neotutor_ask \<lparr>question = q, level = l2\<rparr>"
  by (simp add: neotutor_ask_def)


section \<open>Summaries\<close>

text \<open>
  C9. For every text, the summary computed by the format conversion equals the summary
  computed by the scan on the same text.
\<close>

theorem flexa_eyeread_same_summary:
  "FlexaResponse.summary (flexa_convert \<lparr>FlexaRequest.text' = t\<rparr>) =
   EyeReadResponse.summary (eyeread_scan \<lparr>EyeReadRequest.text' = t\<rparr>)"
  by (simp add: flexa_convert_def eyeread_scan_def Let_def)






section \<open>Format conversion\<close>








section \<open>Keyword precedence in the tutor\<close>



end
